theory Spec2Isabelle
  imports Main
begin

section \<open>Python strings\<close>

text \<open>
  A Python \<open>str\<close> is modelled as a \<^typ>\<open>string\<close>; a character is a code point below 256
  (the Latin-1 range), on which the classification and case mapping below agree with
  Python 3.
\<close>

definition py_isspace :: "char \<Rightarrow> bool" where
  "py_isspace c =
     (let n = (of_char c :: nat)
      in (9 \<le> n \<and> n \<le> 13) \<or> (28 \<le> n \<and> n \<le> 32) \<or> n = 133 \<or> n = 160)"

definition py_isalnum :: "char \<Rightarrow> bool" where
  "py_isalnum c =
     (let n = (of_char c :: nat)
      in (48 \<le> n \<and> n \<le> 57) \<or> (65 \<le> n \<and> n \<le> 90) \<or> (97 \<le> n \<and> n \<le> 122)
         \<or> n \<in> set [170, 178, 179, 181, 185, 186, 188, 189, 190]
         \<or> (192 \<le> n \<and> n \<le> 214) \<or> (216 \<le> n \<and> n \<le> 246) \<or> 248 \<le> n)"

definition py_lower_char :: "char \<Rightarrow> char" where
  "py_lower_char c =
     (let n = (of_char c :: nat)
      in if (65 \<le> n \<and> n \<le> 90) \<or> (192 \<le> n \<and> n \<le> 214) \<or> (216 \<le> n \<and> n \<le> 222)
         then char_of (n + 32) else c)"

text \<open>
  \<open>str.upper\<close>: the three Latin-1 letters whose upper-case form lies outside the range
  (181, 223 and 255) are left as they are.
\<close>

definition py_upper_char :: "char \<Rightarrow> char" where
  "py_upper_char c =
     (let n = (of_char c :: nat)
      in if (97 \<le> n \<and> n \<le> 122) \<or> (224 \<le> n \<and> n \<le> 246) \<or> (248 \<le> n \<and> n \<le> 254)
         then char_of (n - 32) else c)"

definition py_lower :: "string \<Rightarrow> string" where
  "py_lower s = map py_lower_char s"

definition py_upper :: "string \<Rightarrow> string" where
  "py_upper s = map py_upper_char s"

definition py_strip :: "string \<Rightarrow> string" where
  "py_strip s = rev (dropWhile py_isspace (rev (dropWhile py_isspace s)))"


text \<open>
  \<open>s.split(sep)\<close> for a separator that is not empty: the occurrences of \<open>sep\<close> are
  found from the left and do not overlap. \<open>acc\<close> holds the current piece, reversed.
\<close>

function split_from :: "string \<Rightarrow> string \<Rightarrow> string \<Rightarrow> string list" where
  "split_from sep acc [] = [rev acc]"
| "split_from sep acc (c # cs) =
     (if sep \<noteq> [] \<and> take (length sep) (c # cs) = sep
      then rev acc # split_from sep [] (drop (length sep) (c # cs))
      else split_from sep (c # acc) cs)"
  by pat_completeness auto
termination
  by (relation "measure (\<lambda>(sep, acc, s). length s)") auto

definition py_split :: "string \<Rightarrow> string \<Rightarrow> string list" where
  "py_split sep s = split_from sep [] s"

text \<open>\<open>str(n)\<close> for an integer.\<close>

fun str_nat :: "nat \<Rightarrow> string" where
  "str_nat n =
     (if n < 10 then [char_of (48 + n)] else str_nat (n div 10) @ [char_of (48 + n mod 10)])"

declare str_nat.simps [simp del]

definition str_int :: "int \<Rightarrow> string" where
  "str_int i = (if i < 0 then CHR ''-'' # str_nat (nat (- i)) else str_nat (nat i))"

section \<open>Column labels\<close>

text \<open>
  The pattern \<^verbatim>\<open>\s*\((?:select.*|dd/mm/yyyy)\)\s*:?\<close> with \<open>re.IGNORECASE\<close>, tried at
  the start of a string; the result is the text left after the match. The leading \<open>\s*\<close>
  must run up to the parenthesis. In the first alternative the greedy \<open>.*\<close> stays on
  the line and gives back characters until the last closing parenthesis of that line;
  the trailing \<open>\s*\<close> and \<open>:?\<close> take what they can.
\<close>

fun rindex :: "char \<Rightarrow> string \<Rightarrow> nat option" where
  "rindex c [] = None"
| "rindex c (x # xs) =
     (case rindex c xs of
        Some k \<Rightarrow> Some (Suc k)
      | None \<Rightarrow> if x = c then Some 0 else None)"

definition re_tail :: "string \<Rightarrow> string" where
  "re_tail s =
     (case dropWhile py_isspace s of
        [] \<Rightarrow> []
      | c # cs \<Rightarrow> if c = CHR '':'' then cs else c # cs)"

definition re_match :: "string \<Rightarrow> string option" where
  "re_match s =
     (case dropWhile py_isspace s of
        [] \<Rightarrow> None
      | c # s2 \<Rightarrow>
          if c \<noteq> CHR ''('' then None
          else if py_lower (take 6 s2) = ''select'' then
            (case rindex CHR '')'' (takeWhile (\<lambda>x. x \<noteq> CHR 0x0A) (drop 6 s2)) of
               None \<Rightarrow> None
             | Some k \<Rightarrow> Some (re_tail (drop (Suc k) (drop 6 s2))))
          else if py_lower (take 10 s2) = ''dd/mm/yyyy'' then
            (case drop 10 s2 of
               [] \<Rightarrow> None
             | d # s3 \<Rightarrow> if d = CHR '')'' then Some (re_tail s3) else None)
          else None)"

lemma length_re_tail: "length (re_tail s) \<le> length s"
proof -
  have "length (dropWhile py_isspace s) \<le> length s"
    by (rule length_dropWhile_le)
  then show ?thesis
    by (auto simp: re_tail_def split: list.splits)
qed

lemma re_match_shorter:
  assumes "re_match s = Some r"
  shows "length r < length s"
proof -
  have le: "length (dropWhile py_isspace s) \<le> length s"
    by (rule length_dropWhile_le)
  obtain c s2 where d: "dropWhile py_isspace s = c # s2"
    using assms by (auto simp: re_match_def split: list.splits)
  have "length r \<le> length s2"
    using assms d length_re_tail [of "drop (Suc (the (rindex CHR '')'' (takeWhile (\<lambda>x. x \<noteq> CHR 0x0A) (drop 6 s2))))) (drop 6 s2)"]
      length_re_tail [of "tl (drop 10 s2)"]
    by (auto simp: re_match_def split: list.splits if_splits option.splits)
  with le d show ?thesis by simp
qed

text \<open>\<open>re.sub(pattern, "", s)\<close>: every match, found from the left, is removed.\<close>

function re_sub :: "string \<Rightarrow> string" where
  "re_sub [] = []"
| "re_sub (c # cs) =
     (case re_match (c # cs) of
        Some r \<Rightarrow> re_sub r
      | None \<Rightarrow> c # re_sub cs)"
  by pat_completeness auto
termination
  by (relation "measure length") (auto dest: re_match_shorter)

text \<open>\<open>re.search(pattern, s) is not None\<close>.\<close>

fun re_search :: "string \<Rightarrow> bool" where
  "re_search [] = False"
| "re_search (c # cs) = (re_match (c # cs) \<noteq> None \<or> re_search cs)"

definition col_name :: "string \<Rightarrow> string" where
  "col_name label = py_strip (py_lower (re_sub label))"

definition display_col_name :: "string \<Rightarrow> string" where
  "display_col_name label = py_strip (re_sub label)"

section \<open>File names\<close>

definition safe_char :: "char \<Rightarrow> char" where
  "safe_char c = (if py_isalnum c \<or> c \<in> set '' ._-'' then c else CHR ''_'')"

definition sanitize :: "string \<Rightarrow> string" where
  "sanitize claim_name = py_strip (map safe_char claim_name)"

definition safe_name :: "nat \<Rightarrow> string \<Rightarrow> string" where
  "safe_name i claim_name =
     (if sanitize claim_name = [] then ''claim_'' @ str_nat (i + 1) else sanitize claim_name)"

section \<open>Documents\<close>

text \<open>
  The part of a python-docx document the generator writes. A run holds text, line breaks,
  page breaks and pictures in order; its font settings are unset until a style is applied.
  Sizes are in points, picture sizes in EMU, line spacing in hundredths of a line.
\<close>

datatype item = Text string | Break | PageBreak | Picture string "(nat \<times> nat) option"

record font =
  f_name :: "string option"
  f_size :: "nat option"
  f_bold :: "bool option"
  f_italic :: "bool option"
  f_underline :: "bool option"
  f_color :: "(nat \<times> nat \<times> nat) option"

record run =
  r_items :: "item list"
  r_font :: font

datatype align = AlignLeft | AlignCenter | AlignRight

record para =
  p_style :: string
  p_runs :: "run list"
  p_alignment :: "align option"
  p_line_spacing :: "nat option"

record cell =
  c_paragraphs :: "para list"
  c_vcenter :: bool
  c_padding :: "(nat \<times> nat \<times> nat \<times> nat) option"

text \<open>
  The table of four rows and one column that carries the metadata: the first row holds a
  nested table of one row and two columns (\<open>m_left\<close>, \<open>m_right\<close>), the second the header
  image, the third and fourth the description of risk and the cause of loss.
\<close>

record meta_table =
  m_left :: "para list"
  m_right :: "para list"
  m_image :: cell
  m_risk :: "para list"
  m_cause :: "para list"

datatype block = Para para | Grid "cell list list" | Meta meta_table

definition no_font :: font where
  "no_font = \<lparr>f_name = None, f_size = None, f_bold = None, f_italic = None,
     f_underline = None, f_color = None\<rparr>"

definition add_run :: "string \<Rightarrow> run" where
  "add_run s = \<lparr>r_items = (if s = [] then [] else [Text s]), r_font = no_font\<rparr>"

definition break_run :: run where
  "break_run = \<lparr>r_items = [Break], r_font = no_font\<rparr>"

definition add_paragraph :: "string \<Rightarrow> string \<Rightarrow> para" where
  "add_paragraph s style =
     \<lparr>p_style = style, p_runs = (if s = [] then [] else [add_run s]),
      p_alignment = None, p_line_spacing = None\<rparr>"

definition add_heading :: "string \<Rightarrow> nat \<Rightarrow> para" where
  "add_heading s level = add_paragraph s (''Heading '' @ str_nat level)"

definition add_page_break :: para where
  "add_page_break = (add_paragraph [] ''Normal'')
     \<lparr>p_runs := [\<lparr>r_items = [PageBreak], r_font = no_font\<rparr>]\<rparr>"

definition new_cell :: cell where
  "new_cell = \<lparr>c_paragraphs = [add_paragraph [] ''Normal''], c_vcenter = False,
     c_padding = None\<rparr>"

text \<open>Assigning \<open>cell.text\<close> replaces the content of a cell and keeps its properties.\<close>

definition set_cell_text :: "string \<Rightarrow> cell \<Rightarrow> cell" where
  "set_cell_text s c =
     c\<lparr>c_paragraphs := [(add_paragraph [] ''Normal'')
        \<lparr>p_runs := [\<lparr>r_items = [Text s], r_font = no_font\<rparr>]\<rparr>]\<rparr>"

definition set_cell_padding :: "cell \<Rightarrow> cell" where
  "set_cell_padding c = c\<lparr>c_padding := Some (200, 200, 200, 200)\<rparr>"

definition upd_run :: "nat \<Rightarrow> (run \<Rightarrow> run) \<Rightarrow> para \<Rightarrow> para" where
  "upd_run k f p = p\<lparr>p_runs := (p_runs p)[k := f (p_runs p ! k)]\<rparr>"

definition set_bold :: "bool \<Rightarrow> run \<Rightarrow> run" where
  "set_bold b r = r\<lparr>r_font := (r_font r)\<lparr>f_bold := Some b\<rparr>\<rparr>"

definition set_color :: "nat \<times> nat \<times> nat \<Rightarrow> run \<Rightarrow> run" where
  "set_color c r = r\<lparr>r_font := (r_font r)\<lparr>f_color := Some c\<rparr>\<rparr>"

definition set_size :: "nat \<Rightarrow> run \<Rightarrow> run" where
  "set_size n r = r\<lparr>r_font := (r_font r)\<lparr>f_size := Some n\<rparr>\<rparr>"

text \<open>The text of a paragraph as python-docx reports it: a break reads as a newline.\<close>

fun item_text :: "item \<Rightarrow> string" where
  "item_text (Text s) = s"
| "item_text Break = [CHR 0x0A]"
| "item_text PageBreak = []"
| "item_text (Picture p sz) = []"

definition run_text :: "run \<Rightarrow> string" where
  "run_text r = concat (map item_text (r_items r))"

definition para_text :: "para \<Rightarrow> string" where
  "para_text p = concat (map run_text (p_runs p))"


section \<open>Styles\<close>

record style_spec =
  font_name :: string
  font_size :: nat
  bold :: bool
  italic :: bool
  underline :: bool
  color :: "nat \<times> nat \<times> nat"
  alignment :: "align option"
  line_spacing :: nat

definition style_normal :: style_spec where
  "style_normal = \<lparr>font_name = ''Times New Roman'', font_size = 12, bold = False,
     italic = False, underline = False, color = (0, 0, 0), alignment = None,
     line_spacing = 115\<rparr>"

definition STYLE_MAP :: "string \<Rightarrow> style_spec option" where
  "STYLE_MAP key =
     (if key = ''Normal'' then Some style_normal
      else if key = ''Heading 1'' then
        Some \<lparr>font_name = ''Times New Roman'', font_size = 18, bold = True, italic = False,
          underline = True, color = (47, 84, 150), alignment = Some AlignCenter,
          line_spacing = 150\<rparr>
      else if key = ''Heading 3'' then
        Some \<lparr>font_name = ''Times New Roman'', font_size = 12, bold = True, italic = False,
          underline = False, color = (47, 84, 150), alignment = Some AlignLeft,
          line_spacing = 150\<rparr>
      else if key = ''List Paragraph'' then
        Some \<lparr>font_name = ''Times New Roman'', font_size = 12, bold = True, italic = False,
          underline = False, color = (0, 0, 0), alignment = None, line_spacing = 115\<rparr>
      else None)"

definition style_font :: "style_spec \<Rightarrow> font" where
  "style_font st = \<lparr>f_name = Some (font_name st), f_size = Some (font_size st),
     f_bold = Some (bold st), f_italic = Some (italic st),
     f_underline = Some (underline st), f_color = Some (color st)\<rparr>"

definition apply_style :: "para \<Rightarrow> string \<Rightarrow> para" where
  "apply_style para style_key =
     (let st = (case STYLE_MAP style_key of Some s \<Rightarrow> s | None \<Rightarrow> style_normal)
      in para\<lparr>p_line_spacing := Some (line_spacing st),
              p_alignment := (case alignment st of
                                Some a \<Rightarrow> Some a
                              | None \<Rightarrow> p_alignment para),
              p_runs := map (\<lambda>r. r\<lparr>r_font := style_font st\<rparr>) (p_runs para)\<rparr>)"

section \<open>The workbook and the environment\<close>

text \<open>
  A cell of the sheet is a string or a value of another type, given by the name of its
  type and its \<open>str()\<close> text. The frame holds the labels as \<open>str\<close> gives them and the
  rows, with date columns already formatted.
\<close>

datatype pyval = Str string | Other string string

fun py_str :: "pyval \<Rightarrow> string" where
  "py_str (Str s) = s"
| "py_str (Other ty s) = s"

record dataframe =
  df_columns :: "string list"
  df_values :: "pyval list list"

datatype py_error = IndexError string | AttributeError string | FileNotFoundError string

fun err_text :: "py_error \<Rightarrow> string" where
  "err_text (IndexError m) = m"
| "err_text (AttributeError m) = m"
| "err_text (FileNotFoundError m) = m"

text \<open>
  What the generator reads from outside: the workbook at a path (\<open>Inl\<close> the text of the
  exception when it cannot be read), the body of the template (\<open>None\<close> when it is
  missing or does not load) and, for a picture file, the text of the exception its
  insertion raises, if any.
\<close>

record env =
  read_excel :: "string \<Rightarrow> string + dataframe"
  template :: "block list option"
  picture_error :: "string \<Rightarrow> string option"

text \<open>Indexing an array with an integer: a negative index counts from the end.\<close>

definition np_index :: "'a list \<Rightarrow> int \<Rightarrow> py_error + 'a" where
  "np_index xs i =
     (let n = int (length xs)
      in if 0 \<le> i \<and> i < n then Inr (xs ! nat i)
         else if - n \<le> i \<and> i < 0 then Inr (xs ! nat (n + i))
         else Inl (IndexError (''index '' @ str_int i @ '' is out of bounds for axis 0 with size ''
                     @ str_nat (length xs))))"

definition cell_value :: "pyval list list \<Rightarrow> int \<Rightarrow> nat \<Rightarrow> py_error + pyval" where
  "cell_value data row_index i =
     (case np_index data row_index of
        Inl e \<Rightarrow> Inl e
      | Inr row \<Rightarrow> np_index row (int i))"

text \<open>\<open>v.split(sep)\<close> on a cell: only a string has the method.\<close>

fun val_split :: "string \<Rightarrow> pyval \<Rightarrow> py_error + string list" where
  "val_split sep (Str s) = Inr (py_split sep s)"
| "val_split sep (Other ty s) =
     Inl (AttributeError ([CHR 0x27] @ ty @ [CHR 0x27] @ '' object has no attribute ''
            @ [CHR 0x27] @ ''split'' @ [CHR 0x27]))"

section \<open>Rendering the fields of a row\<close>

text \<open>
  The state of one run of the generator: the blocks before the metadata table (the
  template's content and the report heading), the metadata table, the blocks appended
  after it, the note carried from the indemnity reserves to the expense reserves, and
  the messages passed to the logging callback. The document is
  \<open>st_front @ [Meta st_meta] @ st_body\<close>.
\<close>

record rstate =
  st_front :: "block list"
  st_meta :: meta_table
  st_body :: "block list"
  st_note :: string
  st_log :: "string list"

datatype slot = SlotLeft | SlotRight | SlotRisk | SlotCause

definition metadata_keys :: "string list" where
  "metadata_keys = [''policyholder'', ''address'', ''insurer'', ''adjuster'',
     ''description of risk'', ''claim #'', ''date of report'', ''date assigned'',
     ''date of inspection'', ''date of loss'', ''type of loss'', ''cause of loss'',
     ''assigned gc'', ''pm contact'']"

definition text_cell :: "string \<Rightarrow> slot" where
  "text_cell col =
     (let c = SlotLeft;
          c = (if col = ''cause of loss'' then SlotCause else c);
          c = (if col = ''description of risk'' then SlotRisk else c);
          c = (if col \<in> set [''claim #'', ''date of report'', ''date assigned'', ''assigned gc'',
                               ''pm contact''] then SlotRight else c)
      in c)"

fun cell_add_paragraph :: "slot \<Rightarrow> para \<Rightarrow> meta_table \<Rightarrow> meta_table" where
  "cell_add_paragraph SlotLeft p m = m\<lparr>m_left := m_left m @ [p]\<rparr>"
| "cell_add_paragraph SlotRight p m = m\<lparr>m_right := m_right m @ [p]\<rparr>"
| "cell_add_paragraph SlotRisk p m = m\<lparr>m_risk := m_risk m @ [p]\<rparr>"
| "cell_add_paragraph SlotCause p m = m\<lparr>m_cause := m_cause m @ [p]\<rparr>"

definition doc_add :: "block list \<Rightarrow> rstate \<Rightarrow> rstate" where
  "doc_add bs st = st\<lparr>st_body := st_body st @ bs\<rparr>"

definition add_break :: "run \<Rightarrow> run" where
  "add_break r = r\<lparr>r_items := r_items r @ [Break]\<rparr>"

definition accent :: "nat \<times> nat \<times> nat" where
  "accent = (47, 84, 150)"

text \<open>
  Each branch returns the exception it raised, if any, with the state as it was then:
  what was written before the exception stays in the document. \<open>cv\<close> is the cell
  \<open>data[row_index][i]\<close>, read where the source reads it.
\<close>

definition metadata_branch ::
  "string \<Rightarrow> string \<Rightarrow> py_error + pyval \<Rightarrow> rstate \<Rightarrow> py_error option \<times> rstate" where
  "metadata_branch col disp cv st =
     (let special = (col = ''cause of loss'' \<or> col = ''description of risk'');
          para = (add_paragraph [] ''Normal'')\<lparr>p_runs := [add_run (disp @ '': '')]\<rparr>
      in case cv of
           Inl e \<Rightarrow> (Some e, st\<lparr>st_meta := cell_add_paragraph (text_cell col) para (st_meta st)\<rparr>)
         | Inr v \<Rightarrow>
             (let para = para\<lparr>p_runs := p_runs para @
                           [add_run (if special then [CHR 0x0A] @ py_str v @ [CHR 0x0A]
                                     else py_str v)]\<rparr>;
                  para = apply_style para ''Normal'';
                  para = upd_run 0 (set_bold True) para;
                  para = (if special then upd_run 0 (set_color accent) para else para)
              in (None, st\<lparr>st_meta := cell_add_paragraph (text_cell col) para (st_meta st)\<rparr>)))"

text \<open>
  The two keys of the reserves share the bulleted paragraph \<open>para\<close>, which is already in
  the document when the cell is read.
\<close>

definition producer_part ::
  "para \<Rightarrow> py_error + pyval \<Rightarrow> rstate \<Rightarrow> py_error option \<times> rstate" where
  "producer_part para cv st =
     (case cv of
        Inl e \<Rightarrow> (Some e, doc_add [Para para] st)
      | Inr v \<Rightarrow>
          (case val_split ''HST'' v of
             Inl e \<Rightarrow> (Some e, doc_add [Para para] st)
           | Inr temp \<Rightarrow>
               (case temp of
                  t0 # t1 # rest \<Rightarrow>
                    (let para = para\<lparr>p_runs := p_runs para @ [add_run (t0 @ ''HST'')]\<rparr>;
                         para = apply_style para ''List Paragraph'';
                         para = upd_run 1 (set_bold False) para
                     in (None, (doc_add [Para para] st)\<lparr>st_note := t1\<rparr>))
                | _ \<Rightarrow> (Some (IndexError ''list index out of range''),
                        doc_add [Para para] st))))"

definition consumer_part ::
  "para \<Rightarrow> py_error + pyval \<Rightarrow> rstate \<Rightarrow> py_error option \<times> rstate" where
  "consumer_part para cv st =
     (case cv of
        Inl e \<Rightarrow> (Some e, doc_add [Para para] st)
      | Inr v \<Rightarrow>
          (let run1 = add_break (add_run ([CHR 0x0A] @ ''Note: '' @ py_strip (st_note st)));
               para = para\<lparr>p_runs := p_runs para @ [add_run (py_str v), run1]\<rparr>;
               para = apply_style para ''List Paragraph'';
               para = upd_run 1 (set_bold False) para;
               para = upd_run 2 (set_bold False) para
           in (None, doc_add [Para para] st)))"

definition reserves_branch ::
  "string \<Rightarrow> string \<Rightarrow> py_error + pyval \<Rightarrow> rstate \<Rightarrow> py_error option \<times> rstate" where
  "reserves_branch col disp cv st =
     (let para = add_paragraph (disp @ '' '') ''List Bullet''
      in if col = ''indemnity reserves:'' then producer_part para cv st
         else consumer_part para cv st)"

definition manager_branch ::
  "string \<Rightarrow> string \<Rightarrow> py_error + pyval \<Rightarrow> rstate \<Rightarrow> py_error option \<times> rstate" where
  "manager_branch col disp cv st =
     (case cv of
        Inl e \<Rightarrow> (Some e, st)
      | Inr v \<Rightarrow>
          (case val_split [CHR 0x0A] v of
             Inl e \<Rightarrow> (Some e, st)
           | Inr temp \<Rightarrow>
               (case temp of
                  [] \<Rightarrow> (Some (IndexError ''list index out of range''), st)
                | t0 # rest \<Rightarrow>
                    (let para1 = (add_paragraph [] ''Normal'')
                           \<lparr>p_runs := [add_run (disp @ '': ''), add_run t0]\<rparr>;
                         para1 = apply_style para1 ''Normal'';
                         para1 = upd_run 0 (set_bold True) para1;
                         para = (add_paragraph [] ''Normal'')
                           \<lparr>p_runs := [break_run, add_run ''Thank you,'', add_run ([CHR 0x0A] @ t0)]
                                      @ map (\<lambda>line. add_run ([CHR 0x0A] @ line)) rest\<rparr>;
                         para = apply_style para ''Normal'';
                         para = upd_run 2 (set_bold True) para
                     in (None, doc_add [Para para]
                           (st\<lparr>st_meta := cell_add_paragraph SlotLeft para1 (st_meta st)\<rparr>))))))"

definition trinity_key :: string where
  "trinity_key = ''recommended reserves for trinity'' @ [CHR 0x27] @ ''s involvement:''"

definition conclusion_part ::
  "string \<Rightarrow> py_error + pyval \<Rightarrow> rstate \<Rightarrow> py_error option \<times> rstate" where
  "conclusion_part disp cv st =
     (let spacer = (add_paragraph [] ''Normal'')\<lparr>p_runs := [break_run]\<rparr>;
          heading2 = add_heading disp 2
      in case cv of
           Inl e \<Rightarrow> (Some e, doc_add [Para spacer, Para heading2] st)
         | Inr v \<Rightarrow>
             (let par = add_paragraph (py_str v) ''Normal''
              in (None, doc_add [Para spacer, Para (apply_style heading2 ''Heading 3''),
                                 Para (apply_style par ''Normal'')] st)))"

definition section_part ::
  "string \<Rightarrow> string \<Rightarrow> py_error + pyval \<Rightarrow> rstate \<Rightarrow> py_error option \<times> rstate" where
  "section_part col disp cv st =
     (let hed = apply_style (add_heading disp 2) ''Heading 3''
      in case cv of
           Inl e \<Rightarrow> (Some e, doc_add [Para hed] st)
         | Inr v \<Rightarrow>
             (let para = apply_style (add_paragraph (py_str v) ''Normal'') ''Normal'';
                  para = (if col \<noteq> trinity_key
                          then para\<lparr>p_runs := p_runs para @ [break_run]\<rparr>
                          else para\<lparr>p_line_spacing := Some 150\<rparr>)
              in (None, doc_add [Para hed, Para para] st)))"

definition narrative_branch ::
  "string \<Rightarrow> string \<Rightarrow> py_error + pyval \<Rightarrow> rstate \<Rightarrow> py_error option \<times> rstate" where
  "narrative_branch col disp cv st =
     (if col = ''conclusion'' then conclusion_part disp cv st
      else section_part col disp cv st)"

text \<open>The body of the \<open>try\<close> statement for column \<open>i\<close>: the chain of tests on the key.\<close>

definition field_body ::
  "pyval list list \<Rightarrow> int \<Rightarrow> nat \<Rightarrow> string \<Rightarrow> rstate \<Rightarrow> py_error option \<times> rstate" where
  "field_body data row_index i label st =
     (let col = col_name label;
          disp = display_col_name label;
          cv = cell_value data row_index i
      in if col \<in> set metadata_keys then metadata_branch col disp cv st
         else if col \<in> set [''indemnity reserves:'', ''expense reserves:'']
           then reserves_branch col disp cv st
         else if col = ''product manager'' then manager_branch col disp cv st
         else narrative_branch col disp cv st)"

definition field_warning :: "string \<Rightarrow> py_error \<Rightarrow> string" where
  "field_warning label e =
     ''[WARNING] Failed to insert column '' @ display_col_name label @ '': '' @ err_text e"

text \<open>The \<open>try\<close> statement: an exception of the body is logged and the loop goes on.\<close>

definition render_field ::
  "pyval list list \<Rightarrow> int \<Rightarrow> nat \<Rightarrow> string \<Rightarrow> rstate \<Rightarrow> rstate" where
  "render_field data row_index i label st =
     (case field_body data row_index i label st of
        (None, st') \<Rightarrow> st'
      | (Some e, st') \<Rightarrow> st'\<lparr>st_log := st_log st' @ [field_warning label e]\<rparr>)"

fun render_fields ::
  "pyval list list \<Rightarrow> int \<Rightarrow> (nat \<times> string) list \<Rightarrow> rstate \<Rightarrow> rstate" where
  "render_fields data row_index [] st = st"
| "render_fields data row_index ((i, label) # cols) st =
     render_fields data row_index cols (render_field data row_index i label st)"

section \<open>Header image and photographs\<close>

text \<open>
  The image map of a case is a dictionary from the name of a room to the list of its
  picture files, kept as an association list in the order of iteration.
\<close>

type_synonym image_map = "(string \<times> string list) list"

definition is_home :: "string \<times> string list \<Rightarrow> bool" where
  "is_home kv = (py_lower (fst kv) = ''home'')"

definition header_image :: "env \<Rightarrow> image_map \<Rightarrow> cell \<Rightarrow> cell \<times> string list" where
  "header_image e room_image_map imageCell =
     (let imageCell = imageCell\<lparr>c_vcenter := True\<rparr>
      in case find is_home room_image_map of
           None \<Rightarrow> (set_cell_text ''[Header image not provided]'' imageCell, [])
         | Some home_tuple \<Rightarrow>
             (case c_paragraphs imageCell of
                [] \<Rightarrow> (imageCell,
                       [''[WARNING] Failed to load image header: list index out of range''])
              | para1 # ps \<Rightarrow>
                  (case snd home_tuple of
                     [] \<Rightarrow> (set_cell_text ''[Header image missing]'' imageCell,
                            [''[WARNING] Failed to insert header image: list index out of range''])
                   | img # _ \<Rightarrow>
                       (case picture_error e img of
                          Some msg \<Rightarrow> (set_cell_text ''[Header image missing]'' imageCell,
                                       [''[WARNING] Failed to insert header image: '' @ msg])
                        | None \<Rightarrow>
                            (imageCell\<lparr>c_paragraphs :=
                               para1\<lparr>p_runs := p_runs para1 @
                                        [\<lparr>r_items = [Break, Break, Picture img None, Break],
                                          r_font = no_font\<rparr>],
                                      p_alignment := Some AlignCenter\<rparr> # ps\<rparr>, [])))))"

text \<open>\<open>range(start, stop, 4)\<close>.\<close>

function range4 :: "nat \<Rightarrow> nat \<Rightarrow> nat list" where
  "range4 i stop = (if i < stop then i # range4 (i + 4) stop else [])"
  by pat_completeness auto
termination
  by (relation "measure (\<lambda>(i, stop). stop - i)") auto

declare range4.simps [simp del]

definition picture_size :: "nat \<times> nat" where
  "picture_size = (2286000, 2286000)"

text \<open>The cell of a grid that receives the picture \<open>path\<close>, in column \<open>col\<close>.\<close>

definition picture_cell :: "env \<Rightarrow> nat \<Rightarrow> string \<Rightarrow> cell \<times> string list" where
  "picture_cell e col path =
     (let p = (add_paragraph [] ''Normal'')
            \<lparr>p_alignment := Some (if col = 0 then AlignRight else AlignLeft)\<rparr>;
          c = set_cell_padding new_cell
      in case picture_error e path of
           None \<Rightarrow>
             (c\<lparr>c_paragraphs :=
                  [p\<lparr>p_runs := [\<lparr>r_items = [Picture path (Some picture_size)],
                                  r_font = no_font\<rparr>]\<rparr>]\<rparr>, [])
         | Some msg \<Rightarrow>
             (set_cell_text ''[Image missing]'' c,
              [''[WARNING] Failed to insert image '' @ path @ '': '' @ msg]))"

definition grid_cell :: "env \<Rightarrow> string list \<Rightarrow> nat \<Rightarrow> nat \<Rightarrow> cell \<times> string list" where
  "grid_cell e batch row col =
     (let img_idx = row * 2 + col
      in if img_idx < length batch then picture_cell e col (batch ! img_idx)
         else (new_cell, []))"

definition grid_table :: "env \<Rightarrow> string list \<Rightarrow> block \<times> string list" where
  "grid_table e batch =
     (let cells = map (\<lambda>row. map (\<lambda>col. grid_cell e batch row col) [0, 1]) [0, 1]
      in (Grid (map (map fst) cells), concat (map (\<lambda>r. concat (map snd r)) cells)))"

definition room_tables :: "env \<Rightarrow> string list \<Rightarrow> block list \<times> string list" where
  "room_tables e image_list =
     (let ts = map (\<lambda>i. grid_table e (take 4 (drop i image_list)))
                 (range4 0 (length image_list))
      in (map fst ts, concat (map snd ts)))"

definition room_heading :: "string \<Rightarrow> para" where
  "room_heading room_name =
     (let rhead = add_heading (py_upper room_name) 3;
          rhead = rhead\<lparr>p_runs := p_runs rhead @ [break_run]\<rparr>;
          rhead = apply_style rhead ''Normal'';
          rhead = rhead\<lparr>p_alignment := Some AlignCenter\<rparr>
      in rhead\<lparr>p_runs := map (set_size 18) (p_runs rhead)\<rparr>)"

text \<open>The loop over the rooms; a page break follows every room but the last.\<close>

fun room_sections :: "env \<Rightarrow> image_map \<Rightarrow> block list \<times> string list" where
  "room_sections e [] = ([], [])"
| "room_sections e ((room_name, image_list) # rooms) =
     (let (tables, tlog) = room_tables e image_list;
          (others, olog) = room_sections e rooms
      in (Para (room_heading room_name) # tables
            @ (if rooms \<noteq> [] then [Para add_page_break] else []) @ others,
          tlog @ olog))"

definition photos_heading :: para where
  "photos_heading =
     (let phead = add_heading ''PHOTOGRAPHS'' 1;
          phead = phead\<lparr>p_runs := p_runs phead @ [break_run]\<rparr>
      in apply_style phead ''Heading 1'')"

definition photos_section :: "env \<Rightarrow> image_map \<Rightarrow> block list \<times> string list" where
  "photos_section e room_image_map =
     (if list_ex (\<lambda>kv. snd kv \<noteq> []) room_image_map then
        (let rooms = filter (\<lambda>kv. \<not> is_home kv) room_image_map;
             (sections, slog) = room_sections e rooms
         in ([Para add_page_break, Para photos_heading]
               @ (if rooms = [] then [Para (add_paragraph ''[No photographs provided]'' ''Normal'')]
                  else [])
               @ sections, slog))
      else ([], []))"

section \<open>Paths and files\<close>

text \<open>Paths follow \<open>posixpath\<close>. The file system maps the path of a file to its content.\<close>

datatype stored = Docx "block list" | Zip "(string \<times> stored) list"

type_synonym fs = "string \<Rightarrow> stored option"

definition path_join :: "string \<Rightarrow> string \<Rightarrow> string" where
  "path_join a b =
     (if take 1 b = ''/'' then b
      else if a = [] \<or> last a = CHR ''/'' then a @ b
      else a @ ''/'' @ b)"

definition dirname :: "string \<Rightarrow> string" where
  "dirname p =
     (let head = (case rindex CHR ''/'' p of None \<Rightarrow> [] | Some k \<Rightarrow> take (Suc k) p)
      in if head \<noteq> [] \<and> head \<noteq> replicate (length head) CHR ''/''
         then rev (dropWhile (\<lambda>c. c = CHR ''/'') (rev head)) else head)"

definition basename :: "string \<Rightarrow> string" where
  "basename p = (case rindex CHR ''/'' p of None \<Rightarrow> p | Some k \<Rightarrow> drop (Suc k) p)"

section \<open>The document generator\<close>

definition new_meta_table :: meta_table where
  "new_meta_table =
     \<lparr>m_left = [add_paragraph [] ''Normal''], m_right = [add_paragraph [] ''Normal''],
      m_image = new_cell, m_risk = [add_paragraph [] ''Normal''],
      m_cause = [add_paragraph [] ''Normal'']\<rparr>"

definition row_warning :: "int \<Rightarrow> string" where
  "row_warning row_index =
     ''[WARNING] Row index '' @ str_int row_index @ '' out of bounds. Using last available row.''"

text \<open>
  Everything after the workbook is read and the row is chosen: the template, the
  heading, the metadata table, the header image, the fields, the photographs, and the
  save. \<open>os.makedirs\<close> raises on the empty directory name of a bare file name; no
  handler of the generator catches it.
\<close>

definition build_document ::
  "env \<Rightarrow> dataframe \<Rightarrow> image_map \<Rightarrow> int \<Rightarrow> string list \<Rightarrow> block list \<times> string list" where
  "build_document e df room_image_map row_index lg =
     (let (doc, lg) = (case template e of
                         Some t \<Rightarrow> (t, lg)
                       | None \<Rightarrow> ([], lg @ [''[WARNING] Template missing or inaccessible. Using blank document.'']));
          heading = apply_style (add_heading ''FIRST INSPECTION REPORT'' 1) ''Heading 1'';
          (imageCell, hlog) = header_image e room_image_map new_cell;
          st = \<lparr>st_front = doc @ [Para heading],
                st_meta = new_meta_table\<lparr>m_image := imageCell\<rparr>,
                st_body = [], st_note = [], st_log = lg @ hlog\<rparr>;
          st = render_fields (df_values df) row_index (enumerate 0 (df_columns df)) st;
          (photos, plog) = photos_section e room_image_map
      in (st_front st @ [Meta (st_meta st)] @ st_body st @ photos, st_log st @ plog))"

definition save_document ::
  "fs \<Rightarrow> string list \<Rightarrow> string \<Rightarrow> block list
     \<Rightarrow> (py_error + string option) \<times> fs \<times> string list" where
  "save_document files lg output_filename doc =
     (if dirname output_filename = []
      then (Inl (FileNotFoundError (''[Errno 2] No such file or directory: ''
                   @ [CHR 0x27, CHR 0x27])), files, lg)
      else (Inr (Some output_filename), files(output_filename \<mapsto> Docx doc),
            lg @ [''[SUCCESS] Document saved: '' @ output_filename]))"

definition generate_docs ::
  "env \<Rightarrow> fs \<Rightarrow> string list \<Rightarrow> string \<Rightarrow> image_map \<Rightarrow> string \<Rightarrow> int
     \<Rightarrow> (py_error + string option) \<times> fs \<times> string list" where
  "generate_docs e files lg excel_path room_image_map output_filename row_index =
     (case read_excel e excel_path of
        Inl msg \<Rightarrow> (Inr None, files, lg @ [''[ERROR] Failed to read Excel file: '' @ msg])
      | Inr df \<Rightarrow>
          if length (df_values df) = 0
          then (Inr None, files, lg @ [''[ERROR] Excel file contains no rows.''])
          else
            (let (row_index, lg) =
                   (if row_index \<ge> int (length (df_values df))
                    then (int (length (df_values df)) - 1, lg @ [row_warning row_index])
                    else (row_index, lg));
                 (doc, lg) = build_document e df room_image_map row_index lg
             in save_document files lg output_filename doc))"

section \<open>Generating the documents of all cases\<close>

record app =
  excel_path :: "string option"
  claim_image_map :: "(string \<times> image_map) list"
  output_folder :: string
  download_path :: string
  log_area :: "string list"

text \<open>
  The loop over the cases. An exception of the generator leaves the loop; the result
  carries it with the files and the log as they were then.
\<close>

fun claims_loop ::
  "env \<Rightarrow> string \<Rightarrow> string \<Rightarrow> (nat \<times> string \<times> image_map) list
     \<Rightarrow> string list \<times> fs \<times> string list
     \<Rightarrow> py_error option \<times> string list \<times> fs \<times> string list" where
  "claims_loop e excel folder [] (generated_files, files, lg) =
     (None, generated_files, files, lg)"
| "claims_loop e excel folder ((i, claim_name, room_images) # rest) (generated_files, files, lg) =
     (let output_filename = path_join folder (safe_name i claim_name @ ''.docx'');
          lg = lg @ [''[INFO] Generating document for claim: '' @ claim_name @ '' -> ''
                       @ output_filename]
      in case generate_docs e files lg excel room_images output_filename (int i) of
           (Inl err, files, lg) \<Rightarrow> (Some err, generated_files, files, lg)
         | (Inr result, files, lg) \<Rightarrow>
             (case result of
                Some r \<Rightarrow>
                  if r \<noteq> []
                  then claims_loop e excel folder rest (generated_files @ [r], files, lg)
                  else claims_loop e excel folder rest (generated_files, files,
                         lg @ [''[WARNING] Document generation returned no result for claim: ''
                                 @ claim_name])
              | None \<Rightarrow>
                  claims_loop e excel folder rest (generated_files, files,
                    lg @ [''[WARNING] Document generation returned no result for claim: ''
                            @ claim_name])))"

definition zip_entries :: "fs \<Rightarrow> string list \<Rightarrow> (string \<times> stored) list" where
  "zip_entries files generated_files =
     List.map_filter
       (\<lambda>fpath. case files fpath of None \<Rightarrow> None | Some c \<Rightarrow> Some (basename fpath, c))
       generated_files"

definition process_files :: "env \<Rightarrow> app \<Rightarrow> fs \<Rightarrow> app \<times> fs" where
  "process_files e a files =
     (if excel_path a = None \<or> excel_path a = Some [] \<or> claim_image_map a = []
      then (a\<lparr>log_area := log_area a @
                 [''[ERROR] Please upload an Excel file and a valid image folder structure (ZIP).'']\<rparr>,
            files)
      else
        (let lg = [''[INFO] Preparing to generate documents...'']
         in if output_folder a = []
            then (a\<lparr>log_area := lg @
                       [''[ERROR] Unexpected error while processing files: ''
                          @ ''[Errno 2] No such file or directory: '' @ [CHR 0x27, CHR 0x27]]\<rparr>,
                  files)
            else
              (case claims_loop e (the (excel_path a)) (output_folder a)
                      (map (\<lambda>(i, kv). (i, fst kv, snd kv)) (enumerate 0 (claim_image_map a)))
                      ([], files, lg) of
                 (Some err, generated_files, files, lg) \<Rightarrow>
                   (a\<lparr>log_area := lg @
                        [''[ERROR] Unexpected error while processing files: '' @ err_text err]\<rparr>,
                    files)
               | (None, generated_files, files, lg) \<Rightarrow>
                   if generated_files \<noteq> [] then
                     (let lg = lg @ [''[SUCCESS] '' @ str_nat (length generated_files)
                                       @ '' document(s) generated in '' @ output_folder a];
                          zip_path = path_join (output_folder a) ''Generated_Reports.zip'';
                          files = files(zip_path \<mapsto> Zip (zip_entries files generated_files));
                          lg = lg @ [''[INFO] Packaged '' @ str_nat (length generated_files)
                                       @ '' documents into: '' @ zip_path]
                      in (a\<lparr>log_area := lg, download_path := zip_path\<rparr>, files))
                   else
                     (a\<lparr>log_area := lg @ [''[WARNING] No documents were generated.'']\<rparr>,
                      files))))"

section \<open>The placement table of the specification\<close>

text \<open>
  The categories of the specification and its table from field key to category, for
  comparison with the chain of tests in \<^const>\<open>field_body\<close>.
\<close>

datatype placement =
    Metadata
  | ReserveNoteProducer
  | ReserveNoteConsumer
  | ManagerSignoff
  | NarrativeSection
  | NarrativeConclusion

definition classify_spec :: "string \<Rightarrow> placement" where
  "classify_spec key =
     (case map_of
        [(''policyholder'', Metadata), (''address'', Metadata), (''insurer'', Metadata),
         (''adjuster'', Metadata), (''description of risk'', Metadata), (''claim #'', Metadata),
         (''date of report'', Metadata), (''date assigned'', Metadata),
         (''date of inspection'', Metadata), (''date of loss'', Metadata),
         (''type of loss'', Metadata), (''cause of loss'', Metadata),
         (''assigned gc'', Metadata), (''pm contact'', Metadata),
         (''indemnity reserves:'', ReserveNoteProducer),
         (''expense reserves:'', ReserveNoteConsumer),
         (''product manager'', ManagerSignoff),
         (''conclusion'', NarrativeConclusion)] key of
        Some c \<Rightarrow> c
      | None \<Rightarrow> NarrativeSection)"

text \<open>
  The rendering of a field by its category, from the steps of the layout engine in the
  specification: the bulleted paragraph of the reserves opens both of their categories.
\<close>

definition render_category ::
  "placement \<Rightarrow> string \<Rightarrow> string \<Rightarrow> py_error + pyval \<Rightarrow> rstate \<Rightarrow> py_error option \<times> rstate" where
  "render_category cat col disp cv st =
     (case cat of
        Metadata \<Rightarrow> metadata_branch col disp cv st
      | ReserveNoteProducer \<Rightarrow> producer_part (add_paragraph (disp @ '' '') ''List Bullet'') cv st
      | ReserveNoteConsumer \<Rightarrow> consumer_part (add_paragraph (disp @ '' '') ''List Bullet'') cv st
      | ManagerSignoff \<Rightarrow> manager_branch col disp cv st
      | NarrativeSection \<Rightarrow> section_part col disp cv st
      | NarrativeConclusion \<Rightarrow> conclusion_part disp cv st)"

section \<open>Observations and sample inputs\<close>

text \<open>The headings of the rooms in a list of blocks: the paragraphs of style \<open>Heading 3\<close>.\<close>

fun heading3 :: "block \<Rightarrow> para list" where
  "heading3 (Para p) = (if p_style p = ''Heading 3'' then [p] else [])"
| "heading3 (Grid rows) = []"
| "heading3 (Meta m) = []"

definition room_heads :: "block list \<Rightarrow> para list" where
  "room_heads bs = concat (map heading3 bs)"


text \<open>
  A workbook of one row, at \<open>book.xlsx\<close>, whose product manager cell is empty (a float,
  not a string); no template; every picture but \<open>bad.jpg\<close> can be inserted.
\<close>

definition ex_df :: dataframe where
  "ex_df =
     \<lparr>df_columns = [''Policyholder'', ''Indemnity Reserves:'', ''Expense Reserves:'',
                     ''Product Manager'', ''Conclusion''],
      df_values = [[Str ''Ann'', Str ''$1,000 plus HST tax included'', Str ''$200'',
                    Other ''float'' ''nan'', Str ''done'']]\<rparr>"

definition ex_env :: env where
  "ex_env =
     \<lparr>read_excel = (\<lambda>p. if p = ''book.xlsx'' then Inr ex_df else Inl ''No such file''),
      template = None,
      picture_error = (\<lambda>p. if p = ''bad.jpg'' then Some ''cannot open'' else None)\<rparr>"

definition ex_state :: rstate where
  "ex_state = \<lparr>st_front = [], st_meta = new_meta_table, st_body = [], st_note = [],
     st_log = []\<rparr>"


section \<open>Properties of labels and file names\<close>

lemma re_sub_no_match: "\<not> re_search s \<Longrightarrow> re_sub s = s"
  by (induction s) auto

lemma length_re_sub: "length (re_sub s) \<le> length s"
proof (induction s rule: re_sub.induct)
  case 1
  show ?case by simp
next
  case (2 c cs)
  show ?case
  proof (cases "re_match (c # cs)")
    case None
    with 2 show ?thesis by simp
  next
    case (Some r)
    with 2 re_match_shorter [OF Some] show ?thesis by simp
  qed
qed

lemma re_sub_shorter: "re_search s \<Longrightarrow> length (re_sub s) < length s"
proof (induction s)
  case Nil
  then show ?case by simp
next
  case (Cons c cs)
  show ?case
  proof (cases "re_match (c # cs)")
    case None
    with Cons show ?thesis by simp
  next
    case (Some r)
    from re_match_shorter [OF Some] length_re_sub [of r] Some show ?thesis by simp
  qed
qed

lemma py_lower_char_idem: "py_lower_char (py_lower_char c) = py_lower_char c"
  by (auto simp: py_lower_char_def Let_def)

lemma set_py_strip: "set (py_strip s) \<subseteq> set s"
  unfolding py_strip_def
  by (metis set_dropWhileD set_rev subsetI)

lemma length_py_strip: "length (py_strip s) \<le> length s"
  unfolding py_strip_def
  by (metis length_dropWhile_le length_rev order_trans)

lemma dropWhile_keeps: "c \<in> set t \<Longrightarrow> \<not> P c \<Longrightarrow> c \<in> set (dropWhile P t)"
  by (induction t) auto

lemma py_strip_nonempty: "c \<in> set t \<Longrightarrow> \<not> py_isspace c \<Longrightarrow> py_strip t \<noteq> []"
  unfolding py_strip_def
  by (metis dropWhile_keeps empty_iff list.set(1) set_rev rev_is_Nil_conv)

lemma stripped_left:
  "dropWhile P (rev (dropWhile P (rev (dropWhile P s)))) = rev (dropWhile P (rev (dropWhile P s)))"
proof (cases "dropWhile P (rev (dropWhile P s)) = []")
  case True
  show ?thesis unfolding True by simp
next
  case False
  define t where "t = dropWhile P s"
  define u where "u = dropWhile P (rev t)"
  have u: "u \<noteq> []" using False by (simp add: u_def t_def)
  have "rev t = takeWhile P (rev t) @ u"
    by (simp add: u_def)
  then have "last (rev t) = last u"
    using u by (metis last_appendR)
  moreover have "t \<noteq> []" using u by (auto simp: u_def)
  ultimately have "hd t = last u"
    by (simp add: last_rev)
  moreover have "\<not> P (hd t)"
    using \<open>t \<noteq> []\<close> unfolding t_def by (rule hd_dropWhile)
  ultimately have "\<not> P (hd (rev u))"
    using u by (simp add: hd_rev)
  then have "dropWhile P (rev u) = rev u"
    by (simp add: dropWhile_eq_self_iff)
  then show ?thesis by (simp add: u_def t_def)
qed

lemma py_strip_idem: "py_strip (py_strip s) = py_strip s"
  by (simp add: py_strip_def stripped_left)

lemma py_lower_stripped: "py_lower (py_strip (py_lower z)) = py_strip (py_lower z)"
proof -
  have "\<forall>c\<in>set (py_strip (py_lower z)). py_lower_char c = c"
    using set_py_strip [of "py_lower z"] by (auto simp: py_lower_def py_lower_char_idem)
  then show ?thesis
    unfolding py_lower_def [of "py_strip (py_lower z)"] by (simp add: map_idI)
qed

text \<open>
  Claim C3, as amended: normalising a label twice gives the same key as normalising it
  once exactly when the key left by the first pass holds no further match of the
  annotation pattern. The substitution is a single pass from the left, so an annotation
  that only forms once an inner one is removed survives the first pass.
\<close>

theorem col_name_fixed_iff:
  "col_name (col_name x) = col_name x \<longleftrightarrow> \<not> re_search (col_name x)"
proof
  assume eq: "col_name (col_name x) = col_name x"
  show "\<not> re_search (col_name x)"
  proof
    assume "re_search (col_name x)"
    then have "length (re_sub (col_name x)) < length (col_name x)"
      by (rule re_sub_shorter)
    moreover have "length (col_name (col_name x)) \<le> length (re_sub (col_name x))"
      using length_py_strip [of "py_lower (re_sub (col_name x))"]
      by (simp add: col_name_def [of "col_name x"] py_lower_def)
    ultimately show False using eq by simp
  qed
next
  assume "\<not> re_search (col_name x)"
  then have "re_sub (col_name x) = col_name x"
    by (rule re_sub_no_match)
  then have "col_name (col_name x) = py_strip (py_lower (col_name x))"
    by (simp add: col_name_def [of "col_name x"])
  also have "\<dots> = py_strip (col_name x)"
    by (simp add: col_name_def [of x] py_lower_stripped)
  also have "\<dots> = col_name x"
    by (simp add: col_name_def [of x] py_strip_idem)
  finally show "col_name (col_name x) = col_name x" .
qed

theorem col_name_fixed_iff_witness:
  "col_name (col_name ''Date of Loss (dd/mm/yyyy):'') = col_name ''Date of Loss (dd/mm/yyyy):''"
proof -
  have "col_name ''Date of Loss (dd/mm/yyyy):'' = ''date of loss''"
    by code_simp
  moreover have "\<not> re_search ''date of loss''"
    by code_simp
  ultimately show ?thesis
    using col_name_fixed_iff [of "''Date of Loss (dd/mm/yyyy):''"] by simp
qed

text \<open>
  The label \<open>(sel(dd/mm/yyyy)ect)\<close> normalises to \<open>(select)\<close>, which normalises to the
  empty key.
\<close>

theorem col_name_not_idempotent:
  "col_name (col_name ''(sel(dd/mm/yyyy)ect)'') \<noteq> col_name ''(sel(dd/mm/yyyy)ect)''"
  by code_simp

lemma alnum_not_space: "py_isalnum c \<Longrightarrow> \<not> py_isspace c"
  by (auto simp: py_isalnum_def py_isspace_def Let_def)

text \<open>
  Claim C9: the sanitised name of \<open>Claim #42/A\<close> is \<open>Claim _42_A\<close>; every character of a
  sanitised name is alphanumeric or one of space, full stop, underscore and hyphen; the
  name is not empty when the case name has an alphanumeric character; and an empty
  name is replaced by \<open>claim_\<close> followed by the index plus one.
\<close>

theorem sanitize_spec:
  "sanitize ''Claim #42/A'' = ''Claim _42_A''
   \<and> (\<forall>c\<in>set (sanitize s). py_isalnum c \<or> c \<in> set '' ._-'')
   \<and> ((\<exists>c\<in>set s. py_isalnum c) \<longrightarrow> sanitize s \<noteq> [])
   \<and> (sanitize s = [] \<longrightarrow> safe_name i s = ''claim_'' @ str_nat (i + 1))
   \<and> (sanitize s \<noteq> [] \<longrightarrow> safe_name i s = sanitize s)"
proof (intro conjI)
  show "sanitize ''Claim #42/A'' = ''Claim _42_A''"
    by code_simp
  show "\<forall>c\<in>set (sanitize s). py_isalnum c \<or> c \<in> set '' ._-''"
    using set_py_strip [of "map safe_char s"]
    by (auto simp: sanitize_def safe_char_def split: if_splits)
  show "(\<exists>c\<in>set s. py_isalnum c) \<longrightarrow> sanitize s \<noteq> []"
  proof
    assume "\<exists>c\<in>set s. py_isalnum c"
    then obtain c where c: "c \<in> set s" "py_isalnum c" by blast
    then have "c \<in> set (map safe_char s)"
      by (force simp: safe_char_def)
    with c(2) show "sanitize s \<noteq> []"
      unfolding sanitize_def by (intro py_strip_nonempty [of c]) (auto dest: alnum_not_space)
  qed
  show "sanitize s = [] \<longrightarrow> safe_name i s = ''claim_'' @ str_nat (i + 1)"
    by (simp add: safe_name_def)
  show "sanitize s \<noteq> [] \<longrightarrow> safe_name i s = sanitize s"
    by (simp add: safe_name_def)
qed

theorem sanitize_spec_witness:
  "sanitize ''a/b'' \<noteq> [] \<and> safe_name 0 ''a/b'' = ''a_b'' \<and> safe_name 2 ''  '' = ''claim_3''"
proof -
  have 1: "\<exists>c\<in>set ''a/b''. py_isalnum c" by (simp add: py_isalnum_def)
  have 2: "sanitize ''a/b'' = ''a_b''" by code_simp
  have 3: "sanitize ''  '' = []" by code_simp
  have 4: "str_nat 3 = ''3''" by code_simp
  show ?thesis
    using sanitize_spec [of "''a/b''" 0] sanitize_spec [of "''  ''" 2] 1 2 3 4 by simp
qed


section \<open>Properties of the field dispatch and the photo grid\<close>

lemma classify_metadata: "col \<in> set metadata_keys \<Longrightarrow> classify_spec col = Metadata"
  by (auto simp: metadata_keys_def classify_spec_def)

lemma classify_other:
  "col \<notin> set metadata_keys \<Longrightarrow>
   classify_spec col =
     (if col = ''indemnity reserves:'' then ReserveNoteProducer
      else if col = ''expense reserves:'' then ReserveNoteConsumer
      else if col = ''product manager'' then ManagerSignoff
      else if col = ''conclusion'' then NarrativeConclusion
      else NarrativeSection)"
  by (simp add: metadata_keys_def classify_spec_def)

text \<open>
  Claim C4: for every label, the chain of tests that renders the field takes the branch
  that the table of the specification gives for the normalised key: the fourteen
  metadata keys go to the metadata block, \<open>indemnity reserves:\<close> to the producer of the
  note, \<open>expense reserves:\<close> to its consumer, \<open>product manager\<close> to the sign-off,
  \<open>conclusion\<close> to the conclusion and every other key to a narrative section.
\<close>

theorem field_body_placement:
  "field_body data row_index i label st =
     render_category (classify_spec (col_name label)) (col_name label) (display_col_name label)
       (cell_value data row_index i) st"
proof (cases "col_name label \<in> set metadata_keys")
  case True
  then show ?thesis
    by (simp add: field_body_def render_category_def classify_metadata)
next
  case False
  then show ?thesis
    by (simp add: field_body_def render_category_def classify_other reserves_branch_def
        narrative_branch_def)
qed

theorem field_body_placement_witness:
  "classify_spec (col_name ''Conclusion (select one):'') = NarrativeConclusion
   \<and> field_body (df_values ex_df) 0 4 ''Conclusion (select one):'' ex_state
       = conclusion_part ''Conclusion'' (Inr (Str ''done'')) ex_state
   \<and> classify_spec (col_name ''Date of Loss (dd/mm/yyyy)'') = Metadata
   \<and> classify_spec (col_name ''Scope of Work'') = NarrativeSection"
proof -
  have 1: "col_name ''Conclusion (select one):'' = ''conclusion''"
    "display_col_name ''Conclusion (select one):'' = ''Conclusion''"
    "cell_value (df_values ex_df) 0 4 = Inr (Str ''done'')"
    "classify_spec ''conclusion'' = NarrativeConclusion"
    "classify_spec (col_name ''Date of Loss (dd/mm/yyyy)'') = Metadata"
    "classify_spec (col_name ''Scope of Work'') = NarrativeSection"
    by code_simp+
  show ?thesis
    using field_body_placement [of "df_values ex_df" 0 4 "''Conclusion (select one):''" ex_state]
    by (simp add: 1 render_category_def)
qed

lemma range4_eq: "range4 i n = map (\<lambda>j. i + 4 * j) [0..<(n - i + 3) div 4]"
proof (induction i n rule: range4.induct)
  case (1 i stop)
  show ?case
  proof (cases "i < stop")
    case False
    then show ?thesis by (subst range4.simps) simp
  next
    case True
    define k where "k = (stop - (i + 4) + 3) div 4"
    have k: "(stop - i + 3) div 4 = Suc k"
      using True unfolding k_def by arith
    have "map (\<lambda>j. i + 4 * j) [0..<Suc k] = i # map (\<lambda>j. i + 4 * j) (map Suc [0..<k])"
      by (simp add: upt_conv_Cons map_Suc_upt del: upt_Suc)
    also have "\<dots> = i # range4 (i + 4) stop"
      using 1 True by (simp add: comp_def k_def)
    finally show ?thesis
      using True by (subst range4.simps) (simp only: k if_True)
  qed
qed

lemma length_range4: "length (range4 0 n) = (n + 3) div 4"
  by (simp add: range4_eq)

lemma nth_range4: "k < (n + 3) div 4 \<Longrightarrow> range4 0 n ! k = 4 * k"
  by (simp add: range4_eq)

lemma grid_cell_batch:
  assumes "row < 2" "col < 2"
  shows "grid_cell e (take 4 (drop (4 * k) xs)) row col =
     (if 4 * k + row * 2 + col < length xs
      then picture_cell e col (xs ! (4 * k + row * 2 + col)) else (new_cell, []))"
  using assms by (auto simp: grid_cell_def Let_def add.assoc)

text \<open>
  Claim C6: a room with \<open>n\<close> pictures gets exactly \<open>\<lceil>n/4\<rceil>\<close> tables of two rows and two
  columns; in the table of batch \<open>k\<close> the cell at \<open>(row, col)\<close> holds the picture of index
  \<open>row * 2 + col\<close> of the batch, which is picture \<open>4 * k + row * 2 + col\<close> of the room, when
  there is one, and is left empty otherwise; five pictures give two tables.
\<close>

theorem room_tables_grid:
  "length (fst (room_tables e image_list)) = (length image_list + 3) div 4
   \<and> (\<forall>k < (length image_list + 3) div 4.
        fst (room_tables e image_list) ! k =
          Grid (map (\<lambda>row. map (\<lambda>col.
                  if 4 * k + row * 2 + col < length image_list
                  then fst (picture_cell e col (image_list ! (4 * k + row * 2 + col)))
                  else new_cell) [0, 1]) [0, 1]))
   \<and> (\<forall>path col. picture_error e path = None \<longrightarrow>
          map p_runs (c_paragraphs (fst (picture_cell e col path)))
            = [[\<lparr>r_items = [Picture path (Some picture_size)], r_font = no_font\<rparr>]])
   \<and> (length image_list = 5 \<longrightarrow> length (fst (room_tables e image_list)) = 2)"
proof (intro conjI allI impI)
  show len: "length (fst (room_tables e image_list)) = (length image_list + 3) div 4"
    by (simp add: room_tables_def Let_def length_range4)
  show "length (fst (room_tables e image_list)) = 2" if "length image_list = 5"
    using that len by simp
  show "map p_runs (c_paragraphs (fst (picture_cell e col path)))
            = [[\<lparr>r_items = [Picture path (Some picture_size)], r_font = no_font\<rparr>]]"
    if "picture_error e path = None" for path col
    using that by (simp add: picture_cell_def Let_def add_paragraph_def)
  show "fst (room_tables e image_list) ! k =
          Grid (map (\<lambda>row. map (\<lambda>col.
                  if 4 * k + row * 2 + col < length image_list
                  then fst (picture_cell e col (image_list ! (4 * k + row * 2 + col)))
                  else new_cell) [0, 1]) [0, 1])"
    if "k < (length image_list + 3) div 4" for k
  proof -
    have "fst (room_tables e image_list) ! k
        = fst (grid_table e (take 4 (drop (4 * k) image_list)))"
      using that by (simp add: room_tables_def Let_def length_range4 nth_range4)
    also have "\<dots> = Grid (map (\<lambda>row. map (\<lambda>col.
                  if 4 * k + row * 2 + col < length image_list
                  then fst (picture_cell e col (image_list ! (4 * k + row * 2 + col)))
                  else new_cell) [0, 1]) [0, 1])"
      by (simp add: grid_table_def Let_def grid_cell_batch)
    finally show ?thesis .
  qed
qed

theorem room_tables_grid_witness:
  "fst (room_tables \<lparr>read_excel = (\<lambda>p. Inl []), template = None, picture_error = (\<lambda>p. None)\<rparr>
         [''1.jpg'', ''2.jpg'', ''3.jpg'', ''4.jpg'', ''5.jpg'']) ! 1
     = Grid [[fst (picture_cell \<lparr>read_excel = (\<lambda>p. Inl []), template = None, picture_error = (\<lambda>p. None)\<rparr> 0 ''5.jpg''), new_cell],
             [new_cell, new_cell]]"
  using room_tables_grid [of "\<lparr>read_excel = (\<lambda>p. Inl []), template = None, picture_error = (\<lambda>p. None)\<rparr>"
      "[''1.jpg'', ''2.jpg'', ''3.jpg'', ''4.jpg'', ''5.jpg'']"]
  by simp


section \<open>Properties of the photo section and of the choice of the row\<close>

lemma str_nat_3: "str_nat 3 = ''3''"
  by (simp add: str_nat.simps char_of_eq_iff)

lemma room_heading_style: "p_style (room_heading room_name) = ''Heading 3''"
  by (simp add: room_heading_def add_heading_def add_paragraph_def apply_style_def Let_def
      str_nat_3)

lemma room_heads_append: "room_heads (xs @ ys) = room_heads xs @ room_heads ys"
  by (simp add: room_heads_def)

lemma room_heads_tables: "room_heads (fst (room_tables e image_list)) = []"
  by (simp add: room_heads_def room_tables_def grid_table_def Let_def comp_def)

lemma room_heads_page_break: "room_heads [Para add_page_break] = []"
  by (simp add: room_heads_def add_page_break_def add_paragraph_def)

lemma room_heads_sections:
  "room_heads (fst (room_sections e rooms)) = map (\<lambda>kv. room_heading (fst kv)) rooms"
proof (induction rooms)
  case Nil
  show ?case by (simp add: room_heads_def)
next
  case (Cons kv rooms)
  obtain room_name image_list where kv: "kv = (room_name, image_list)"
    by (cases kv)
  have "room_heads (fst (room_sections e (kv # rooms)))
      = room_heads ([Para (room_heading room_name)] @ fst (room_tables e image_list)
          @ (if rooms \<noteq> [] then [Para add_page_break] else [])
          @ fst (room_sections e rooms))"
    by (simp add: kv case_prod_beta Let_def)
  also have "\<dots> = room_heading room_name # room_heads (fst (room_sections e rooms))"
    by (simp only: room_heads_append room_heads_tables)
       (simp add: room_heads_page_break, simp add: room_heads_def room_heading_style)
  finally show ?case using Cons by (simp add: kv)
qed

text \<open>
  Claim C2, as amended: the page break and the \<open>PHOTOGRAPHS\<close> heading are written exactly
  when the image map holds at least one picture under any key, the header key \<open>home\<close>
  included; the rooms of the section are the keys other than \<open>home\<close>, in order; and when
  every key is \<open>home\<close> the section consists of the page break, the heading and the
  placeholder \<open>[No photographs provided]\<close>.
\<close>

theorem photos_section_spec:
  "(list_ex (\<lambda>kv. snd kv \<noteq> []) room_image_map \<longrightarrow>
      (\<exists>rest. fst (photos_section e room_image_map)
                 = Para add_page_break # Para photos_heading # rest)
      \<and> room_heads (fst (photos_section e room_image_map))
          = map (\<lambda>kv. room_heading (fst kv)) (filter (\<lambda>kv. \<not> is_home kv) room_image_map)
      \<and> ((\<forall>kv\<in>set room_image_map. is_home kv) \<longrightarrow>
            fst (photos_section e room_image_map)
              = [Para add_page_break, Para photos_heading,
                 Para (add_paragraph ''[No photographs provided]'' ''Normal'')]))
   \<and> (\<not> list_ex (\<lambda>kv. snd kv \<noteq> []) room_image_map \<longrightarrow>
        photos_section e room_image_map = ([], []))"
proof (intro conjI impI)
  assume any: "list_ex (\<lambda>kv. snd kv \<noteq> []) room_image_map"
  define rooms where "rooms = filter (\<lambda>kv. \<not> is_home kv) room_image_map"
  have sec: "fst (photos_section e room_image_map)
      = [Para add_page_break, Para photos_heading]
        @ (if rooms = [] then [Para (add_paragraph ''[No photographs provided]'' ''Normal'')]
           else [])
        @ fst (room_sections e rooms)"
    using any by (simp add: photos_section_def rooms_def case_prod_beta Let_def)
  show "\<exists>rest. fst (photos_section e room_image_map)
                 = Para add_page_break # Para photos_heading # rest"
    by (simp add: sec)
  have "room_heads [Para add_page_break, Para photos_heading] = []"
    by (simp add: room_heads_def add_page_break_def add_paragraph_def photos_heading_def
        add_heading_def apply_style_def Let_def str_nat.simps char_of_eq_iff)
  moreover have "room_heads [Para (add_paragraph ''[No photographs provided]'' ''Normal'')] = []"
    by (simp add: room_heads_def add_paragraph_def)
  ultimately show "room_heads (fst (photos_section e room_image_map))
      = map (\<lambda>kv. room_heading (fst kv)) (filter (\<lambda>kv. \<not> is_home kv) room_image_map)"
    unfolding sec room_heads_append room_heads_sections by (simp add: rooms_def room_heads_def)
  show "fst (photos_section e room_image_map)
              = [Para add_page_break, Para photos_heading,
                 Para (add_paragraph ''[No photographs provided]'' ''Normal'')]"
    if "\<forall>kv\<in>set room_image_map. is_home kv"
  proof -
    have "rooms = []" using that by (simp add: rooms_def)
    then show ?thesis by (simp add: sec)
  qed
next
  assume "\<not> list_ex (\<lambda>kv. snd kv \<noteq> []) room_image_map"
  then show "photos_section e room_image_map = ([], [])"
    by (simp add: photos_section_def)
qed

theorem photos_section_spec_witness:
  "map para_text (room_heads (fst (photos_section ex_env
      [(''Home'', [''h.jpg'']), (''kitchen'', [''1.jpg'']), (''hall'', [])])))
    = [''KITCHEN'' @ [CHR 0x0A], ''HALL'' @ [CHR 0x0A]]
   \<and> fst (photos_section ex_env [(''HOME'', [''h.jpg''])])
       = [Para add_page_break, Para photos_heading,
          Para (add_paragraph ''[No photographs provided]'' ''Normal'')]
   \<and> photos_section ex_env [(''hall'', [])] = ([], [])"
proof -
  have 1: "list_ex (\<lambda>kv. snd kv \<noteq> []) [(''Home'', [''h.jpg'']), (''kitchen'', [''1.jpg'']), (''hall'', [])]"
    by simp
  have 2: "filter (\<lambda>kv. \<not> is_home kv) [(''Home'', [''h.jpg'']), (''kitchen'', [''1.jpg'']), (''hall'', [])]
      = [(''kitchen'', [''1.jpg'']), (''hall'', [])]"
    by code_simp
  have 3: "map para_text (map (\<lambda>kv. room_heading (fst kv)) [(''kitchen'', [''1.jpg'']), (''hall'', [])])
      = [''KITCHEN'' @ [CHR 0x0A], ''HALL'' @ [CHR 0x0A]]"
    by code_simp
  have 4: "\<forall>kv\<in>set [(''HOME'', [''h.jpg''])]. is_home kv"
    by code_simp
  show ?thesis
    using photos_section_spec [of "[(''Home'', [''h.jpg'']), (''kitchen'', [''1.jpg'']), (''hall'', [])]" ex_env]
      photos_section_spec [of "[(''HOME'', [''h.jpg''])]" ex_env]
      photos_section_spec [of "[(''hall'', [])]" ex_env] 1 2 3 4
    by simp
qed

text \<open>
  An image map with the header picture alone has no picture outside \<open>home\<close>, and the
  section is written all the same.
\<close>

theorem photos_without_room_pictures:
  "\<not> list_ex (\<lambda>kv. \<not> is_home kv \<and> snd kv \<noteq> []) [(''home'', [''h.jpg''])]
   \<and> take 2 (fst (photos_section ex_env [(''home'', [''h.jpg''])]))
       = [Para add_page_break, Para photos_heading]"
  by code_simp




section \<open>Properties of the loop over the fields\<close>
















lemma dirname_Nil: "dirname [] = []"
  by (simp add: dirname_def)

lemma generate_docs_saved:
  assumes "read_excel e xlsx = Inr df" "df_values df \<noteq> []" "dirname output_filename \<noteq> []"
  shows "generate_docs e files lg xlsx m output_filename row_index =
     (let r = (if row_index \<ge> int (length (df_values df))
               then int (length (df_values df)) - 1 else row_index);
          lg1 = (if row_index \<ge> int (length (df_values df))
                 then lg @ [row_warning row_index] else lg);
          built = build_document e df m r lg1
      in (Inr (Some output_filename), files(output_filename \<mapsto> Docx (fst built)),
          snd built @ [''[SUCCESS] Document saved: '' @ output_filename]))"
  using assms
  by (simp add: generate_docs_def save_document_def Let_def case_prod_beta)




section \<open>Properties of the note carried between the reserves\<close>















section \<open>Properties of the run over all cases\<close>

lemma claims_loop_step:
  assumes "generate_docs e files
       (lg @ [''[INFO] Generating document for claim: '' @ n @ '' -> ''
                @ path_join folder (safe_name i n @ ''.docx'')])
       xlsx m (path_join folder (safe_name i n @ ''.docx'')) (int i)
     = (Inr (Some (path_join folder (safe_name i n @ ''.docx''))), files', lg')"
    and "path_join folder (safe_name i n @ ''.docx'') \<noteq> []"
  shows "claims_loop e xlsx folder ((i, n, m) # rest) (gen, files, lg)
     = claims_loop e xlsx folder rest
         (gen @ [path_join folder (safe_name i n @ ''.docx'')], files', lg')"
  using assms by (simp add: Let_def)

lemma claims_loop_two:
  assumes rd: "read_excel e xlsx = Inr df" and ne: "df_values df \<noteq> []"
    and s1: "safe_name 0 n1 = nm" and s2: "safe_name 1 n2 = nm"
    and dir: "dirname (path_join folder (nm @ ''.docx'')) \<noteq> []"
  shows "\<exists>lg2 lg'. claims_loop e xlsx folder [(0, n1, m1), (1, n2, m2)] ([], files, lg)
     = (None, [path_join folder (nm @ ''.docx''), path_join folder (nm @ ''.docx'')],
        files(path_join folder (nm @ ''.docx'') \<mapsto>
          Docx (fst (build_document e df m2
            (if 1 \<ge> int (length (df_values df)) then int (length (df_values df)) - 1 else 1) lg2))),
        lg')"
proof -
  define P where "P = path_join folder (nm @ ''.docx'')"
  have P: "P \<noteq> []" using dir dirname_Nil unfolding P_def by auto
  have d: "dirname P \<noteq> []" using dir by (simp add: P_def)
  note g = generate_docs_saved [OF rd ne d]
  define lgA where "lgA = lg @ [''[INFO] Generating document for claim: '' @ n1 @ '' -> '' @ P]"
  obtain f1 l1 where g1: "generate_docs e files lgA xlsx m1 P (int 0) = (Inr (Some P), files(P \<mapsto> f1), l1)"
    unfolding g Let_def by blast
  define r2 where "r2 = (if 1 \<ge> int (length (df_values df)) then int (length (df_values df)) - 1 else 1)"
  define lgB where "lgB = l1 @ [''[INFO] Generating document for claim: '' @ n2 @ '' -> '' @ P]"
  define lg2 where "lg2 = (if 1 \<ge> int (length (df_values df)) then lgB @ [row_warning 1] else lgB)"
  define l2 where "l2 = snd (build_document e df m2 r2 lg2) @ [''[SUCCESS] Document saved: '' @ P]"
  have g2: "generate_docs e (files(P \<mapsto> f1)) lgB xlsx m2 P (int 1)
     = (Inr (Some P), files(P \<mapsto> Docx (fst (build_document e df m2 r2 lg2))), l2)"
    unfolding g Let_def r2_def lg2_def l2_def by simp
  have "claims_loop e xlsx folder [(0, n1, m1), (1, n2, m2)] ([], files, lg)
     = claims_loop e xlsx folder [(1, n2, m2)] ([] @ [P], files(P \<mapsto> f1), l1)"
    using claims_loop_step [of e files lg n1 folder 0 xlsx m1 "files(P \<mapsto> f1)" l1 "[(1, n2, m2)]" "[]"]
      g1 P unfolding s1 P_def lgA_def by blast
  also have "\<dots> = claims_loop e xlsx folder [] (([] @ [P]) @ [P],
       files(P \<mapsto> Docx (fst (build_document e df m2 r2 lg2))), l2)"
    using claims_loop_step [of e "files(P \<mapsto> f1)" l1 n2 folder 1 xlsx m2
        "files(P \<mapsto> Docx (fst (build_document e df m2 r2 lg2)))" l2 "[]" "[] @ [P]"]
      g2 P unfolding s2 P_def lgB_def by blast
  finally have "claims_loop e xlsx folder [(0, n1, m1), (1, n2, m2)] ([], files, lg)
     = (None, [P, P], files(P \<mapsto> Docx (fst (build_document e df m2 r2 lg2))), l2)"
    by simp
  then show ?thesis unfolding P_def r2_def by blast
qed

text \<open>
  Claim C10: the case names \<open>a/b\<close> and \<open>a_b\<close> differ and have the same sanitised name;
  and a run over two cases whose names have the same sanitised name writes both documents
  to one path, where the second replaces the first: afterwards the file system holds, next
  to the archive, the second case's document at that path, and the archive lists that one
  document twice.
\<close>

theorem same_output_location:
  "sanitize ''a/b'' = sanitize ''a_b'' \<and> ''a/b'' \<noteq> ''a_b''
   \<and> (read_excel e xlsx = Inr df \<and> df_values df \<noteq> [] \<and> xlsx \<noteq> []
        \<and> excel_path a = Some xlsx \<and> claim_image_map a = [(n1, m1), (n2, m2)]
        \<and> sanitize n1 = sanitize n2 \<and> sanitize n1 \<noteq> [] \<and> output_folder a \<noteq> []
        \<and> dirname (path_join (output_folder a) (sanitize n1 @ ''.docx'')) \<noteq> [] \<longrightarrow>
       (\<exists>lg2. snd (process_files e a files)
          = files(path_join (output_folder a) (sanitize n1 @ ''.docx'') \<mapsto>
                    Docx (fst (build_document e df m2
                      (if 1 \<ge> int (length (df_values df))
                       then int (length (df_values df)) - 1 else 1) lg2)),
                  path_join (output_folder a) ''Generated_Reports.zip'' \<mapsto>
                    Zip [(basename (path_join (output_folder a) (sanitize n1 @ ''.docx'')),
                          Docx (fst (build_document e df m2
                            (if 1 \<ge> int (length (df_values df))
                             then int (length (df_values df)) - 1 else 1) lg2))),
                         (basename (path_join (output_folder a) (sanitize n1 @ ''.docx'')),
                          Docx (fst (build_document e df m2
                            (if 1 \<ge> int (length (df_values df))
                             then int (length (df_values df)) - 1 else 1) lg2)))])))"
proof (intro conjI impI)
  show "sanitize ''a/b'' = sanitize ''a_b''" by code_simp
  show "''a/b'' \<noteq> ''a_b''" by simp
next
  assume a: "read_excel e xlsx = Inr df \<and> df_values df \<noteq> [] \<and> xlsx \<noteq> []
        \<and> excel_path a = Some xlsx \<and> claim_image_map a = [(n1, m1), (n2, m2)]
        \<and> sanitize n1 = sanitize n2 \<and> sanitize n1 \<noteq> [] \<and> output_folder a \<noteq> []
        \<and> dirname (path_join (output_folder a) (sanitize n1 @ ''.docx'')) \<noteq> []"
  define P where "P = path_join (output_folder a) (sanitize n1 @ ''.docx'')"
  define r2 where "r2 = (if 1 \<ge> int (length (df_values df)) then int (length (df_values df)) - 1 else 1)"
  have s1: "safe_name 0 n1 = sanitize n1" and s2: "safe_name 1 n2 = sanitize n1"
    using a by (auto simp: safe_name_def)
  obtain lg2 lg' where loop: "claims_loop e xlsx (output_folder a) [(0, n1, m1), (1, n2, m2)]
        ([], files, [''[INFO] Preparing to generate documents...''])
     = (None, [P, P], files(P \<mapsto> Docx (fst (build_document e df m2 r2 lg2))), lg')"
    using a claims_loop_two [of e xlsx df n1 "sanitize n1" n2 "output_folder a" m1 m2 files
        "[''[INFO] Preparing to generate documents...'']", OF _ _ s1 s2]
    unfolding P_def r2_def by blast
  have en: "map (\<lambda>(i, kv). (i, fst kv, snd kv)) (enumerate 0 (claim_image_map a))
      = [(0, n1, m1), (1, n2, m2)]"
    using a by simp
  have "snd (process_files e a files)
      = files(P \<mapsto> Docx (fst (build_document e df m2 r2 lg2)),
              path_join (output_folder a) ''Generated_Reports.zip'' \<mapsto>
                Zip [(basename P, Docx (fst (build_document e df m2 r2 lg2))),
                     (basename P, Docx (fst (build_document e df m2 r2 lg2)))])"
    using a loop unfolding process_files_def en
    by (simp add: Let_def zip_entries_def List.map_filter_simps del: claims_loop.simps)
  then show "\<exists>lg2. snd (process_files e a files)
          = files(path_join (output_folder a) (sanitize n1 @ ''.docx'') \<mapsto>
                    Docx (fst (build_document e df m2
                      (if 1 \<ge> int (length (df_values df))
                       then int (length (df_values df)) - 1 else 1) lg2)),
                  path_join (output_folder a) ''Generated_Reports.zip'' \<mapsto>
                    Zip [(basename (path_join (output_folder a) (sanitize n1 @ ''.docx'')),
                          Docx (fst (build_document e df m2
                            (if 1 \<ge> int (length (df_values df))
                             then int (length (df_values df)) - 1 else 1) lg2))),
                         (basename (path_join (output_folder a) (sanitize n1 @ ''.docx'')),
                          Docx (fst (build_document e df m2
                            (if 1 \<ge> int (length (df_values df))
                             then int (length (df_values df)) - 1 else 1) lg2)))])"
    unfolding P_def r2_def by blast
qed


theorem same_output_location_witness:
  "\<exists>lg2. snd (process_files ex_env
        \<lparr>excel_path = Some ''book.xlsx'',
         claim_image_map = [(''a/b'', [(''Kitchen'', [''1.jpg''])]), (''a_b'', [(''Hall'', [''2.jpg''])])],
         output_folder = ''outputs'', download_path = [], log_area = []\<rparr> Map.empty)
     = [''outputs/a_b.docx'' \<mapsto> Docx (fst (build_document ex_env ex_df [(''Hall'', [''2.jpg''])] 0 lg2)),
        ''outputs/Generated_Reports.zip'' \<mapsto>
          Zip [(''a_b.docx'', Docx (fst (build_document ex_env ex_df [(''Hall'', [''2.jpg''])] 0 lg2))),
               (''a_b.docx'', Docx (fst (build_document ex_env ex_df [(''Hall'', [''2.jpg''])] 0 lg2)))]]"
proof -
  have 1: "read_excel ex_env ''book.xlsx'' = Inr ex_df \<and> df_values ex_df \<noteq> []"
    by (simp add: ex_env_def ex_df_def)
  have 2: "sanitize ''a/b'' = ''a_b''" "sanitize ''a_b'' = ''a_b''"
    by code_simp+
  have 3: "path_join ''outputs'' ''a_b.docx'' = ''outputs/a_b.docx''"
    "path_join ''outputs'' ''Generated_Reports.zip'' = ''outputs/Generated_Reports.zip''"
    "dirname ''outputs/a_b.docx'' \<noteq> []" "basename ''outputs/a_b.docx'' = ''a_b.docx''"
    by code_simp+
  have 4: "(if 1 \<ge> int (length (df_values ex_df)) then int (length (df_values ex_df)) - 1 else 1) = 0"
    by (simp add: ex_df_def)
  show ?thesis
    using same_output_location [of ex_env "''book.xlsx''" ex_df
        "\<lparr>excel_path = Some ''book.xlsx'',
         claim_image_map = [(''a/b'', [(''Kitchen'', [''1.jpg''])]), (''a_b'', [(''Hall'', [''2.jpg''])])],
         output_folder = ''outputs'', download_path = [], log_area = []\<rparr>"
        "''a/b''" "[(''Kitchen'', [''1.jpg''])]" "''a_b''" "[(''Hall'', [''2.jpg''])]" Map.empty] 1
    unfolding 4 by (simp add: 2 3)
qed


end
